theory Spec2Isabelle
  imports Complex_Main
begin

section \<open>JSON documents as Python sees them\<close>

text \<open>
  Both modules exchange duck-typed values produced by \<^verbatim>\<open>json.loads\<close>: \<^verbatim>\<open>None\<close>,
  booleans, numbers, unicode strings, lists and dicts. A dict is an association list
  read through \<open>map_of\<close>: the order of its keys carries no meaning, and a dict holds
  each key once. No arithmetic is ever done on a number, so an integer is an \<open>int\<close> and
  a float is a \<open>real\<close> that is only passed along.
\<close>

datatype json =
    JNull
  | JBool bool
  | JInt int
  | JFloat real
  | JStr string
  | JArr "json list"
  | JObj "(string \<times> json) list"

datatype py_type = NoneType | BoolT | NumberT | UnicodeT | ListT | DictT

fun py_type_of :: "json \<Rightarrow> py_type" where
  "py_type_of JNull = NoneType"
| "py_type_of (JBool b) = BoolT"
| "py_type_of (JInt i) = NumberT"
| "py_type_of (JFloat r) = NumberT"
| "py_type_of (JStr s) = UnicodeT"
| "py_type_of (JArr xs) = ListT"
| "py_type_of (JObj kv) = DictT"

text \<open>What the network layer can raise: \<^verbatim>\<open>urllib2\<close> on a connection failure or a
  non-2xx status, \<^verbatim>\<open>json.loads\<close> on a body that is not JSON.\<close>

datatype net_error = URLError | HTTPError nat | ValueError

text \<open>
  The exceptions of the program. \<open>AttributeError t a\<close> is Python's
  \<^verbatim>\<open>'t' object has no attribute 'a'\<close>; \<open>TypeError t\<close> is a subscript or an iteration
  that an object of type \<open>t\<close> does not support; \<open>KeyError k\<close> is a dict without the key.
\<close>

datatype error =
    CloudflareException string
  | AttributeError py_type string
  | KeyError string
  | TypeError py_type
  | NetError net_error

text \<open>\<^verbatim>\<open>obj.get(k)\<close>: only a dict has the method; a missing key gives \<^verbatim>\<open>None\<close>.\<close>

fun py_get :: "json \<Rightarrow> string \<Rightarrow> error + json" where
  "py_get (JObj kv) k = Inr (case map_of kv k of None \<Rightarrow> JNull | Some v \<Rightarrow> v)"
| "py_get obj k = Inl (AttributeError (py_type_of obj) ''get'')"

text \<open>\<^verbatim>\<open>obj[k]\<close> with a string key: a dict without the key raises KeyError, anything
  that is not a dict raises TypeError.\<close>

fun py_getitem :: "json \<Rightarrow> string \<Rightarrow> error + json" where
  "py_getitem (JObj kv) k = (case map_of kv k of None \<Rightarrow> Inl (KeyError k) | Some v \<Rightarrow> Inr v)"
| "py_getitem obj k = Inl (TypeError (py_type_of obj))"

text \<open>\<^verbatim>\<open>for item in obj\<close>: a list gives its elements, a dict its keys, a string its
  characters; nothing else can be iterated.\<close>

fun py_iter :: "json \<Rightarrow> error + json list" where
  "py_iter (JArr xs) = Inr xs"
| "py_iter (JObj kv) = Inr (map (\<lambda>(k, v). JStr k) kv)"
| "py_iter (JStr s) = Inr (map (\<lambda>c. JStr [c]) s)"
| "py_iter obj = Inl (TypeError (py_type_of obj))"

text \<open>\<^verbatim>\<open>obj.append(x)\<close>: only a list has the method.\<close>

fun py_append :: "json \<Rightarrow> json \<Rightarrow> error + json" where
  "py_append (JArr xs) x = Inr (JArr (xs @ [x]))"
| "py_append obj x = Inl (AttributeError (py_type_of obj) ''append'')"

text \<open>
  \<^verbatim>\<open>next((item for item in items if item[k] == s), None)\<close>: the generator is lazy, so the
  search stops at the first match; an item met before it that cannot be subscripted
  raises. A value that is not the string \<open>s\<close> never compares equal to it.
\<close>

fun next_item :: "string \<Rightarrow> string \<Rightarrow> json list \<Rightarrow> error + json" where
  "next_item k s [] = Inr JNull"
| "next_item k s (item # items) =
     (case py_getitem item k of
        Inl e \<Rightarrow> Inl e
      | Inr v \<Rightarrow> if v = JStr s then Inr item else next_item k s items)"

text \<open>\<^verbatim>\<open>list(filter(lambda i: i[k] != s, items))\<close>: every item is tested, in order.\<close>

fun filter_items :: "string \<Rightarrow> string \<Rightarrow> json list \<Rightarrow> error + json list" where
  "filter_items k s [] = Inr []"
| "filter_items k s (i # items) =
     (case py_getitem i k of
        Inl e \<Rightarrow> Inl e
      | Inr v \<Rightarrow>
          (case filter_items k s items of
             Inl e \<Rightarrow> Inl e
           | Inr kept \<Rightarrow> Inr (if v \<noteq> JStr s then i # kept else kept)))"

section \<open>The network\<close>

text \<open>
  One HTTP request as the program hands it to \<^verbatim>\<open>urllib2\<close>: the URL, the method,
  the headers in the order and spelling of the \<^verbatim>\<open>add_header\<close> calls, and the body. The
  body of a PUT is the text \<^verbatim>\<open>json.dumps(doc)\<close>; it is kept as the document \<open>doc\<close>
  it serialises.
\<close>

record http_request =
  req_url :: string
  get_method :: string
  headers :: "(string \<times> string) list"
  data :: "json option"

text \<open>
  The remote service answers a request in view of the requests the run has sent before
  it. Every call appends its request to the list of requests sent so far, which is
  therefore the sequence of round trips of the run.
\<close>

type_synonym network = "http_request list \<Rightarrow> http_request \<Rightarrow> net_error + json"

section \<open>cloudflare\_account\_instance: the instance registrar\<close>

record cloudflare =
  base_url :: string
  url :: string
  pool_id :: string
  email :: string
  api_key :: string
  state :: string
  instance_ip :: string
  instance_name :: string
  instance_weight :: real
  wait :: bool

definition Cloudflare ::
  "string \<Rightarrow> string \<Rightarrow> string \<Rightarrow> string \<Rightarrow> string \<Rightarrow> string \<Rightarrow> string \<Rightarrow> real \<Rightarrow> bool
     \<Rightarrow> cloudflare" where
  "Cloudflare email' api_key' account_id' pool_id' state' instance_ip' instance_name'
      instance_weight' wait' =
     (let b = ''https://api.cloudflare.com/client/v4/accounts/'' @
              (account_id' @ ''/load_balancers/pools'')
      in \<lparr> base_url = b,
           url = b @ (''/'' @ pool_id'),
           pool_id = pool_id',
           email = email',
           api_key = api_key',
           state = state',
           instance_ip = instance_ip',
           instance_name = instance_name',
           instance_weight = instance_weight',
           wait = wait' \<rparr>)"

text \<open>
  \<^verbatim>\<open>request(content)\<close> in two steps. First the request is built: a GET of the
  collection when \<open>content\<close> is \<^verbatim>\<open>None\<close>, else a PUT of \<open>content\<close> to the pool's own
  URL, with the three headers. Then it is sent and the answer parsed. The keyword
  arguments are dropped unread.
\<close>

definition build_request :: "cloudflare \<Rightarrow> json option \<Rightarrow> http_request" where
  "build_request self content =
     (let hs = [(''Content-Type'', ''application/json''),
                (''X-Auth-Email'', email self),
                (''X-Auth-Key'', api_key self)]
      in case content of
           None \<Rightarrow> \<lparr> req_url = base_url self, get_method = ''GET'',
                     headers = hs, data = None \<rparr>
         | Some c \<Rightarrow> \<lparr> req_url = url self, get_method = ''PUT'',
                       headers = hs, data = Some c \<rparr>)"

definition request ::
  "network \<Rightarrow> cloudflare \<Rightarrow> json option \<Rightarrow> http_request list
     \<Rightarrow> http_request list \<times> (error + json)" where
  "request net self content sent =
     (let req = build_request self content
      in (sent @ [req],
          case net sent req of
            Inl e \<Rightarrow> Inl (NetError e)
          | Inr response_json \<Rightarrow> Inr response_json))"

definition req_pool_info ::
  "network \<Rightarrow> cloudflare \<Rightarrow> http_request list \<Rightarrow> http_request list \<times> (error + json)" where
  "req_pool_info net self sent =
     (case request net self None sent of
        (sent', Inl e) \<Rightarrow> (sent', Inl e)
      | (sent', Inr response_json) \<Rightarrow>
          (sent',
           case py_get response_json ''result'' of
             Inl e \<Rightarrow> Inl e
           | Inr pools \<Rightarrow>
               (case py_iter pools of
                  Inl e \<Rightarrow> Inl e
                | Inr items \<Rightarrow> next_item ''id'' (pool_id self) items)))"

definition get_origin_by_ip :: "cloudflare \<Rightarrow> json \<Rightarrow> error + json" where
  "get_origin_by_ip self origins =
     (case py_iter origins of
        Inl e \<Rightarrow> Inl e
      | Inr items \<Rightarrow> next_item ''address'' (instance_ip self) items)"

definition req_present ::
  "network \<Rightarrow> cloudflare \<Rightarrow> http_request list \<Rightarrow> http_request list \<times> (error + json)" where
  "req_present net self sent =
     (case req_pool_info net self sent of
        (sent', Inl e) \<Rightarrow> (sent', Inl e)
      | (sent', Inr current_state) \<Rightarrow>
          (case py_get current_state ''name'' of
             Inl e \<Rightarrow> (sent', Inl e)
           | Inr current_pool_name \<Rightarrow>
               (case py_get current_state ''origins'' of
                  Inl e \<Rightarrow> (sent', Inl e)
                | Inr origins \<Rightarrow>
                    (case get_origin_by_ip self origins of
                       Inl e \<Rightarrow> (sent', Inl e)
                     | Inr found \<Rightarrow>
                         if found \<noteq> JNull
                         then (sent', Inl (CloudflareException
                                 ''Origin requested to be present already exists''))
                         else
                           (let new_origin = JObj
                                  [(''enabled'', JBool True),
                                   (''name'', JStr (instance_name self)),
                                   (''weight'', JFloat (instance_weight self)),
                                   (''address'', JStr (instance_ip self))]
                            in case py_append origins new_origin of
                                 Inl e \<Rightarrow> (sent', Inl e)
                               | Inr origins' \<Rightarrow>
                                   (let desired_state = JObj
                                          [(''name'', current_pool_name),
                                           (''origins'', origins')]
                                    in request net self (Some desired_state) sent'))))))"

definition req_absent ::
  "network \<Rightarrow> cloudflare \<Rightarrow> http_request list \<Rightarrow> http_request list \<times> (error + json)" where
  "req_absent net self sent =
     (case req_pool_info net self sent of
        (sent', Inl e) \<Rightarrow> (sent', Inl e)
      | (sent', Inr current_state) \<Rightarrow>
          (case py_get current_state ''name'' of
             Inl e \<Rightarrow> (sent', Inl e)
           | Inr current_pool_name \<Rightarrow>
               (case py_get current_state ''origins'' of
                  Inl e \<Rightarrow> (sent', Inl e)
                | Inr origins \<Rightarrow>
                    (case py_iter origins of
                       Inl e \<Rightarrow> (sent', Inl e)
                     | Inr items \<Rightarrow>
                         (case filter_items ''address'' (instance_ip self) items of
                            Inl e \<Rightarrow> (sent', Inl e)
                          | Inr desired_origins_state \<Rightarrow>
                              if length desired_origins_state \<le> 1
                              then (sent', Inl (CloudflareException
                                 ''Cloudflare requires origin to contain at least one entry''))
                              else
                                (let desired_state = JObj
                                       [(''name'', current_pool_name),
                                        (''origins'', JArr desired_origins_state)]
                                 in request net self (Some desired_state) sent'))))))"

text \<open>
  How a run ends. \<^verbatim>\<open>module.exit_json(**kw)\<close> leaves through \<^verbatim>\<open>SystemExit\<close>, which
  \<^verbatim>\<open>except Exception\<close> does not catch; \<^verbatim>\<open>module.fail_json(msg=str(err))\<close> reports the
  exception \<open>err\<close>; an exception outside every \<^verbatim>\<open>try\<close> ends the run with a traceback.
\<close>

datatype message = Str error | Literal string

datatype outcome =
    Exit_json "(string \<times> json) list"
  | Fail_json message
  | Traceback error

record params =
  p_account_id :: string
  p_pool_id :: string
  p_email :: string
  p_api_key :: string
  p_state :: string
  p_instance_ip :: string
  p_instance_name :: string
  p_instance_weight :: real
  p_wait :: bool

text \<open>The message of the last line of \<^verbatim>\<open>cloudflare_account_instance\<close>; its
  placeholder is never filled in.\<close>

definition unknown_state_msg :: string where
  \<open>unknown_state_msg =
     ''Unknown value "{0}" for argument state. Expected one of: present, absent.''\<close>

definition cloudflare_account_instance ::
  "network \<Rightarrow> params \<Rightarrow> http_request list \<Rightarrow> http_request list \<times> (error + outcome)" where
  "cloudflare_account_instance net m sent =
     (let cf = Cloudflare (p_email m) (p_api_key m) (p_account_id m)
                 (p_pool_id m) (p_state m) (p_instance_ip m)
                 (p_instance_name m) (p_instance_weight m) (p_wait m);
          st = p_state m
      in if st = ''present'' then
           (case req_present net cf sent of
              (sent', Inl e) \<Rightarrow> (sent', Inl e)
            | (sent', Inr resp) \<Rightarrow>
                (sent', Inr (Exit_json [(''changed'', JBool True), (''response'', resp)])))
         else if st = ''absent'' then
           (case req_absent net cf sent of
              (sent', Inl e) \<Rightarrow> (sent', Inl e)
            | (sent', Inr resp) \<Rightarrow>
                (sent', Inr (Exit_json [(''changed'', JBool True), (''response'', resp)])))
         else (sent, Inr (Fail_json (Literal unknown_state_msg))))"

text \<open>\<^verbatim>\<open>main\<close>: the run starts with nothing sent; any exception becomes a failure.\<close>

definition main :: "network \<Rightarrow> params \<Rightarrow> http_request list \<times> outcome" where
  "main net m =
     (case cloudflare_account_instance net m [] of
        (sent, Inl err) \<Rightarrow> (sent, Fail_json (Str err))
      | (sent, Inr out) \<Rightarrow> (sent, out))"

section \<open>cloudflare\_account\_lb\_info: the pool lister\<close>

record lb_cloudflare =
  lb_url :: string
  lb_email :: string
  lb_api_key :: string

definition lb_Cloudflare :: "string \<Rightarrow> string \<Rightarrow> string \<Rightarrow> lb_cloudflare" where
  "lb_Cloudflare email' api_key' account_id' =
     \<lparr> lb_url = ''https://api.cloudflare.com/client/v4/accounts/'' @
                  (account_id' @ ''/load_balancers/pools''),
       lb_email = email',
       lb_api_key = api_key' \<rparr>"

text \<open>\<^verbatim>\<open>request(method)\<close> of the lister, built then sent: always the collection
  URL, never a body.\<close>

definition lb_build_request :: "lb_cloudflare \<Rightarrow> string \<Rightarrow> http_request" where
  "lb_build_request self method =
     \<lparr> req_url = lb_url self, get_method = method,
       headers = [(''Content-Type'', ''application/json''),
                  (''X-Auth-Email'', lb_email self),
                  (''X-Auth-Key'', lb_api_key self)],
       data = None \<rparr>"

definition lb_request ::
  "network \<Rightarrow> lb_cloudflare \<Rightarrow> string \<Rightarrow> http_request list
     \<Rightarrow> http_request list \<times> (error + json)" where
  "lb_request net self method sent =
     (let req = lb_build_request self method
      in (sent @ [req],
          case net sent req of
            Inl e \<Rightarrow> Inl (NetError e)
          | Inr response_json \<Rightarrow> Inr response_json))"

definition rec_info ::
  "network \<Rightarrow> lb_cloudflare \<Rightarrow> http_request list \<Rightarrow> http_request list \<times> (error + json)" where
  "rec_info net self sent = lb_request net self ''GET'' sent"

record lb_params =
  lb_p_account_id :: string
  lb_p_email :: string
  lb_p_api_key :: string

definition cloudflare_account_lb ::
  "network \<Rightarrow> lb_params \<Rightarrow> http_request list \<Rightarrow> http_request list \<times> (error + json)" where
  "cloudflare_account_lb net m sent =
     rec_info net (lb_Cloudflare (lb_p_email m) (lb_p_api_key m) (lb_p_account_id m)) sent"

text \<open>\<^verbatim>\<open>main\<close> of the lister. Reading \<^verbatim>\<open>result\<close> off the response happens after the
  \<^verbatim>\<open>try\<close>, so a response that is not a dict ends the run with a traceback.\<close>

definition lb_main :: "network \<Rightarrow> lb_params \<Rightarrow> http_request list \<times> outcome" where
  "lb_main net m =
     (case cloudflare_account_lb net m [] of
        (sent, Inl err) \<Rightarrow> (sent, Fail_json (Str err))
      | (sent, Inr response) \<Rightarrow>
          (sent,
           case py_get response ''result'' of
             Inl err \<Rightarrow> Traceback err
           | Inr result \<Rightarrow> Exit_json [(''clbs'', result)]))"

section \<open>Sample data\<close>

text \<open>
  The pool of the docstring of \<^verbatim>\<open>_req_pool_info\<close> with a given origin list, an account
  that holds the given pools and answers a PUT by echoing the document, and the
  parameters of the module's own usage example. They are the concrete inputs at which
  the theorems below are instantiated.
\<close>

definition example_origin :: "string \<Rightarrow> string \<Rightarrow> json" where
  "example_origin nm addr =
     JObj [(''enabled'', JBool True), (''name'', JStr nm), (''weight'', JInt 1),
           (''address'', JStr addr)]"

definition example_pool :: "string \<Rightarrow> json list \<Rightarrow> json" where
  "example_pool pid origins =
     JObj [(''check_regions'', JArr [JStr ''WNAM'']),
           (''description'', JStr []),
           (''origins'', JArr origins),
           (''enabled'', JBool False),
           (''created_on'', JStr ''1814-05-17T09:46:07.281116Z''),
           (''minimum_origins'', JInt 1),
           (''modified_on'', JStr ''1914-05-17T12:34:31.398522Z''),
           (''notification_email'', JStr []),
           (''id'', JStr pid),
           (''name'', JStr ''pool_name'')]"

definition example_net :: "json list \<Rightarrow> network" where
  "example_net pools sent req =
     (case data req of
        None \<Rightarrow> Inr (JObj [(''success'', JBool True), (''result'', JArr pools)])
      | Some doc \<Rightarrow> Inr (JObj [(''success'', JBool True), (''result'', doc)]))"

text \<open>The same account when the service turns the PUT down with status 400.\<close>

definition example_net_put_rejected :: "json list \<Rightarrow> network" where
  "example_net_put_rejected pools sent req =
     (case data req of
        None \<Rightarrow> Inr (JObj [(''success'', JBool True), (''result'', JArr pools)])
      | Some doc \<Rightarrow> Inl (HTTPError 400))"

definition example_params :: "string \<Rightarrow> string \<Rightarrow> string \<Rightarrow> params" where
  "example_params pid st ip =
     \<lparr> p_account_id = ''acc'',
       p_pool_id = pid,
       p_email = ''joe@example.com'',
       p_api_key = ''77a54a4c'',
       p_state = st,
       p_instance_ip = ip,
       p_instance_name = ''example_server42'',
       p_instance_weight = 1.0,
       p_wait = False \<rparr>"

definition example_self :: "string \<Rightarrow> string \<Rightarrow> string \<Rightarrow> cloudflare" where
  "example_self pid st ip =
     Cloudflare ''joe@example.com'' ''77a54a4c'' ''acc'' pid st ip ''example_server42'' 1.0 False"

definition example_lb_params :: lb_params where
  "example_lb_params =
     \<lparr> lb_p_account_id = ''acc'', lb_p_email = ''joe@example.com'',
       lb_p_api_key = ''77a54a4c'' \<rparr>"

section \<open>Facts about the building blocks\<close>

lemma request_fst: "fst (request net self c sent) = sent @ [build_request self c]"
  by (simp add: request_def Let_def)

lemma request_snd:
  "snd (request net self c sent) =
     (case net sent (build_request self c) of Inl e \<Rightarrow> Inl (NetError e) | Inr j \<Rightarrow> Inr j)"
  by (simp add: request_def Let_def)

lemma request_not_CloudflareException:
  "snd (request net self c sent) \<noteq> Inl (CloudflareException msg)"
  by (simp add: request_snd split: sum.splits)

lemma build_request_fields:
  "get_method (build_request self None) = ''GET''"
  "get_method (build_request self (Some c)) = ''PUT''"
  "data (build_request self content) = content"
  "req_url (build_request self None) = base_url self"
  "req_url (build_request self (Some c)) = url self"
  by (simp_all add: build_request_def Let_def split: option.splits)

text \<open>Fetching the pool is one GET, whatever comes back.\<close>

lemma req_pool_info_fst: "fst (req_pool_info net self sent) = sent @ [build_request self None]"
  by (simp add: req_pool_info_def request_def Let_def split: prod.splits sum.splits)

lemma fetched_sent:
  "req_pool_info net self sent = (sent', r) \<Longrightarrow> sent' = sent @ [build_request self None]"
  using req_pool_info_fst [of net self sent] by simp

lemma py_getitem_Inr_dict: "py_getitem i k = Inr a \<Longrightarrow> \<exists>kv. i = JObj kv"
  by (cases i) simp_all

lemma py_get_Inr_other: "py_get pool k = Inr v \<Longrightarrow> \<exists>n. py_get pool k' = Inr n"
  by (cases pool) simp_all

text \<open>On items that all carry the key, the lazy search and the filter are the library's
  \<open>find\<close> and \<open>filter\<close>.\<close>

lemma next_item_total:
  "\<forall>i\<in>set items. \<exists>a. py_getitem i k = Inr a \<Longrightarrow> \<exists>found. next_item k s items = Inr found"
  by (induction items) auto

lemma next_item_wf_JNull:
  assumes "\<forall>i\<in>set items. \<exists>a. py_getitem i k = Inr a"
  shows "next_item k s items = Inr found \<Longrightarrow>
         (found \<noteq> JNull) = (\<exists>i\<in>set items. py_getitem i k = Inr (JStr s))"
  using assms by (induction items) (auto split: if_splits)

lemma next_item_no_match:
  "\<forall>i\<in>set items. \<exists>a. py_getitem i k = Inr a \<and> a \<noteq> JStr s \<Longrightarrow>
   next_item k s items = Inr JNull"
  by (induction items) auto

lemma filter_items_wf:
  "\<forall>i\<in>set items. \<exists>a. py_getitem i k = Inr a \<Longrightarrow>
   filter_items k s items = Inr (filter (\<lambda>i. py_getitem i k \<noteq> Inr (JStr s)) items)"
  by (induction items) auto

lemma filter_items_Inr:
  "filter_items k s items = Inr kept \<Longrightarrow>
   kept = filter (\<lambda>i. py_getitem i k \<noteq> Inr (JStr s)) items"
  by (induction items arbitrary: kept) (auto split: sum.splits if_splits)

lemma filter_items_Inr_dicts:
  "filter_items k s items = Inr kept \<Longrightarrow> i \<in> set items \<Longrightarrow> \<exists>kv. i = JObj kv"
  by (induction items arbitrary: kept)
     (auto split: sum.splits if_splits dest: py_getitem_Inr_dict)

text \<open>What the two transitions do once the pool has been fetched and every origin has
  an address.\<close>

lemma req_present_fetched:
  assumes f: "req_pool_info net self sent = (sent', Inr pool)"
    and nm: "py_get pool ''name'' = Inr nm"
    and o: "py_get pool ''origins'' = Inr (JArr os)"
    and wf: "\<forall>i\<in>set os. \<exists>a. py_getitem i ''address'' = Inr a"
  shows "req_present net self sent =
     (if \<exists>i\<in>set os. py_getitem i ''address'' = Inr (JStr (instance_ip self))
      then (sent', Inl (CloudflareException ''Origin requested to be present already exists''))
      else request net self
             (Some (JObj [(''name'', nm),
                          (''origins'', JArr (os @ [JObj
                                  [(''enabled'', JBool True),
                                   (''name'', JStr (instance_name self)),
                                   (''weight'', JFloat (instance_weight self)),
                                   (''address'', JStr (instance_ip self))]]))]))
             sent')"
proof -
  obtain found where n: "next_item ''address'' (instance_ip self) os = Inr found"
    using next_item_total [OF wf] by blast
  have d: "(found \<noteq> JNull) =
           (\<exists>i\<in>set os. py_getitem i ''address'' = Inr (JStr (instance_ip self)))"
    using next_item_wf_JNull [OF wf n] .
  show ?thesis
    using d by (simp add: req_present_def f o nm n get_origin_by_ip_def Let_def)
qed

lemma req_absent_fetched:
  assumes f: "req_pool_info net self sent = (sent', Inr pool)"
    and nm: "py_get pool ''name'' = Inr nm"
    and o: "py_get pool ''origins'' = Inr (JArr os)"
    and wf: "\<forall>i\<in>set os. \<exists>a. py_getitem i ''address'' = Inr a"
  shows "req_absent net self sent =
     (if length (filter (\<lambda>i. py_getitem i ''address'' \<noteq> Inr (JStr (instance_ip self))) os) \<le> 1
      then (sent', Inl (CloudflareException
              ''Cloudflare requires origin to contain at least one entry''))
      else request net self
             (Some (JObj [(''name'', nm),
                          (''origins'', JArr (filter (\<lambda>i. py_getitem i ''address'' \<noteq>
                                   Inr (JStr (instance_ip self))) os))]))
             sent')"
  by (simp add: req_absent_def f o nm filter_items_wf [OF wf] Let_def)

text \<open>A pool collection in which no \<open>id\<close> equals \<open>pool_id\<close> selects \<^verbatim>\<open>None\<close>, and both
  transitions then stop at \<^verbatim>\<open>current_state.get('name')\<close>.\<close>

lemma req_pool_info_no_match:
  assumes "net sent (build_request self None) = Inr response"
    and "py_get response ''result'' = Inr (JArr pools)"
    and "\<forall>p\<in>set pools. \<exists>i. py_getitem p ''id'' = Inr i \<and> i \<noteq> JStr (pool_id self)"
  shows "req_pool_info net self sent = (sent @ [build_request self None], Inr JNull)"
  using assms by (simp add: req_pool_info_def request_def Let_def next_item_no_match)

lemma req_present_no_pool:
  "req_pool_info net self sent = (sent', Inr JNull) \<Longrightarrow>
   req_present net self sent = (sent', Inl (AttributeError NoneType ''get''))"
  by (simp add: req_present_def)

lemma req_absent_no_pool:
  "req_pool_info net self sent = (sent', Inr JNull) \<Longrightarrow>
   req_absent net self sent = (sent', Inl (AttributeError NoneType ''get''))"
  by (simp add: req_absent_def)

lemmas example_defs = example_net_def example_pool_def example_origin_def example_params_def
  example_self_def

lemmas run_defs = main_def cloudflare_account_instance_def req_present_def req_absent_def
  req_pool_info_def get_origin_by_ip_def request_def build_request_def Cloudflare_def Let_def

section \<open>The registrar's error paths\<close>

text \<open>
  Claim C1. A \<open>pool_id\<close> that matches no pool of the account should end \<open>present\<close> and
  \<open>absent\<close> with an explicit "pool not found" error, never with a null-attribute fault.
  The program does not do that. On an account whose only pool has the id \<open>p2\<close>, asked
  for pool \<open>p1\<close>, \<^verbatim>\<open>_req_pool_info\<close> returns \<^verbatim>\<open>None\<close>, \<^verbatim>\<open>current_state.get('name')\<close> raises
  \<^verbatim>\<open>AttributeError: 'NoneType' object has no attribute 'get'\<close>, and the run fails with
  that text as its message, after the one GET, in both states.
\<close>

theorem pool_not_found_attribute_error:
  "main (example_net [example_pool ''p2'' [example_origin ''s1'' ''10.0.0.1'',
                                           example_origin ''s2'' ''10.0.0.2'']])
        (example_params ''p1'' ''present'' ''10.0.0.3'')
   = ([\<lparr> req_url = ''https://api.cloudflare.com/client/v4/accounts/acc/load_balancers/pools'',
          get_method = ''GET'',
          headers = [(''Content-Type'', ''application/json''),
                     (''X-Auth-Email'', ''joe@example.com''),
                     (''X-Auth-Key'', ''77a54a4c'')],
          data = None \<rparr>],
       Fail_json (Str (AttributeError NoneType ''get'')))
   \<and>
   main (example_net [example_pool ''p2'' [example_origin ''s1'' ''10.0.0.1'',
                                           example_origin ''s2'' ''10.0.0.2'']])
        (example_params ''p1'' ''absent'' ''10.0.0.1'')
   = ([\<lparr> req_url = ''https://api.cloudflare.com/client/v4/accounts/acc/load_balancers/pools'',
          get_method = ''GET'',
          headers = [(''Content-Type'', ''application/json''),
                     (''X-Auth-Email'', ''joe@example.com''),
                     (''X-Auth-Key'', ''77a54a4c'')],
          data = None \<rparr>],
       Fail_json (Str (AttributeError NoneType ''get'')))"
  by (simp add: run_defs example_defs)

text \<open>
  Claim C2. When the fetched pool already holds an origin whose address is
  \<open>instance_ip\<close>, \<open>present\<close> fails with the fixed message "Origin requested to be present
  already exists" and the only request of the run is the GET that fetched the pool: no
  PUT is sent, so nothing is written to the remote pool. The pool is one whose origins
  all carry an address, as the data model has it.
\<close>

theorem req_present_duplicate:
  assumes "req_pool_info net self [] = (sent, Inr pool)"
    and "py_get pool ''origins'' = Inr (JArr os)"
    and "\<forall>i\<in>set os. \<exists>a. py_getitem i ''address'' = Inr a"
    and "\<exists>i\<in>set os. py_getitem i ''address'' = Inr (JStr (instance_ip self))"
  shows "req_present net self [] =
           ([build_request self None],
            Inl (CloudflareException ''Origin requested to be present already exists''))"
proof -
  obtain nm where nm: "py_get pool ''name'' = Inr nm"
    using py_get_Inr_other [OF assms(2)] by blast
  have s: "sent = [build_request self None]"
    using fetched_sent [OF assms(1)] by simp
  show ?thesis
    using req_present_fetched [OF assms(1) nm assms(2) assms(3)] assms(4) s by simp
qed

theorem req_present_duplicate_witness:
  "req_present
     (example_net [example_pool ''p1'' [example_origin ''s1'' ''10.0.0.1'',
                                        example_origin ''s2'' ''10.0.0.2'']])
     (example_self ''p1'' ''present'' ''10.0.0.2'') [] =
   ([build_request (example_self ''p1'' ''present'' ''10.0.0.2'') None],
    Inl (CloudflareException ''Origin requested to be present already exists''))
   \<and> map get_method [build_request (example_self ''p1'' ''present'' ''10.0.0.2'') None]
       = [''GET'']"
  using req_present_duplicate
    [where net = "example_net [example_pool ''p1'' [example_origin ''s1'' ''10.0.0.1'',
                                        example_origin ''s2'' ''10.0.0.2'']]"
       and self = "example_self ''p1'' ''present'' ''10.0.0.2''"
       and sent = "[build_request (example_self ''p1'' ''present'' ''10.0.0.2'') None]"
       and pool = "example_pool ''p1'' [example_origin ''s1'' ''10.0.0.1'',
                                        example_origin ''s2'' ''10.0.0.2'']"
       and os = "[example_origin ''s1'' ''10.0.0.1'', example_origin ''s2'' ''10.0.0.2'']"]
  by (simp add: example_defs req_pool_info_def request_def build_request_def Cloudflare_def)

text \<open>
  Claim C3. For a fetched pool, \<open>absent\<close> fails with the fixed message "Cloudflare
  requires origin to contain at least one entry" exactly when at most one origin is left
  after every origin whose address is \<open>instance_ip\<close> has been dropped, and then the run
  has sent the GET only. In particular, with two origins of different addresses,
  removing the first one fails.
\<close>

theorem req_absent_minimum_origins:
  assumes "req_pool_info net self [] = (sent, Inr pool)"
    and "py_get pool ''origins'' = Inr (JArr os)"
    and "\<forall>i\<in>set os. \<exists>a. py_getitem i ''address'' = Inr a"
  shows "(snd (req_absent net self []) =
            Inl (CloudflareException
                   ''Cloudflare requires origin to contain at least one entry''))
         = (length (filter (\<lambda>i. py_getitem i ''address'' \<noteq> Inr (JStr (instance_ip self))) os)
              \<le> 1)
       \<and> (length (filter (\<lambda>i. py_getitem i ''address'' \<noteq> Inr (JStr (instance_ip self))) os)
              \<le> 1 \<longrightarrow>
            fst (req_absent net self []) = [build_request self None])
       \<and> (\<forall>o1 o2. os = [o1, o2]
              \<and> py_getitem o1 ''address'' = Inr (JStr (instance_ip self))
              \<and> py_getitem o2 ''address'' \<noteq> py_getitem o1 ''address'' \<longrightarrow>
            req_absent net self [] =
              ([build_request self None],
               Inl (CloudflareException
                      ''Cloudflare requires origin to contain at least one entry'')))"
proof -
  obtain nm where nm: "py_get pool ''name'' = Inr nm"
    using py_get_Inr_other [OF assms(2)] by blast
  have s: "sent = [build_request self None]"
    using fetched_sent [OF assms(1)] by simp
  note r = req_absent_fetched [OF assms(1) nm assms(2) assms(3)]
  have a: "(snd (req_absent net self []) =
            Inl (CloudflareException
                   ''Cloudflare requires origin to contain at least one entry''))
         = (length (filter (\<lambda>i. py_getitem i ''address'' \<noteq> Inr (JStr (instance_ip self))) os)
              \<le> 1)"
    using request_not_CloudflareException [of net self] by (simp add: r)
  have b: "length (filter (\<lambda>i. py_getitem i ''address'' \<noteq> Inr (JStr (instance_ip self))) os)
              \<le> 1 \<longrightarrow>
            fst (req_absent net self []) = [build_request self None]"
    by (simp add: r s)
  have c: "\<forall>o1 o2. os = [o1, o2]
              \<and> py_getitem o1 ''address'' = Inr (JStr (instance_ip self))
              \<and> py_getitem o2 ''address'' \<noteq> py_getitem o1 ''address'' \<longrightarrow>
            req_absent net self [] =
              ([build_request self None],
               Inl (CloudflareException
                      ''Cloudflare requires origin to contain at least one entry''))"
    by (simp add: r s)
  from a b c show ?thesis by blast
qed

theorem req_absent_minimum_origins_witness:
  "req_absent
     (example_net [example_pool ''p1'' [example_origin ''s1'' ''10.0.0.1'',
                                        example_origin ''s2'' ''10.0.0.2'']])
     (example_self ''p1'' ''absent'' ''10.0.0.1'') [] =
   ([build_request (example_self ''p1'' ''absent'' ''10.0.0.1'') None],
    Inl (CloudflareException ''Cloudflare requires origin to contain at least one entry''))
   \<and> length (filter (\<lambda>i. py_getitem i ''address'' \<noteq> Inr (JStr ''10.0.0.1''))
               [example_origin ''s1'' ''10.0.0.1'', example_origin ''s2'' ''10.0.0.2'']) = 1"
  using req_absent_minimum_origins
    [where net = "example_net [example_pool ''p1'' [example_origin ''s1'' ''10.0.0.1'',
                                        example_origin ''s2'' ''10.0.0.2'']]"
       and self = "example_self ''p1'' ''absent'' ''10.0.0.1''"
       and sent = "[build_request (example_self ''p1'' ''absent'' ''10.0.0.1'') None]"
       and pool = "example_pool ''p1'' [example_origin ''s1'' ''10.0.0.1'',
                                        example_origin ''s2'' ''10.0.0.2'']"
       and os = "[example_origin ''s1'' ''10.0.0.1'', example_origin ''s2'' ''10.0.0.2'']"]
  by (simp add: example_defs req_pool_info_def request_def build_request_def Cloudflare_def)

section \<open>The registrar's writes\<close>

text \<open>
  Claim C4. When no origin of the fetched pool has the address \<open>instance_ip\<close>, \<open>present\<close>
  sends, after the GET, one PUT to the pool's URL whose origin list is the fetched list
  in its order followed by the one new origin
  \<open>{enabled: true, name: instance_name, weight: instance_weight, address: instance_ip}\<close>,
  and returns what the service answers to it.
\<close>

theorem req_present_appends:
  assumes "req_pool_info net self [] = (sent, Inr pool)"
    and "py_get pool ''name'' = Inr nm"
    and "py_get pool ''origins'' = Inr (JArr os)"
    and "\<forall>i\<in>set os. \<exists>a. py_getitem i ''address'' = Inr a"
    and "\<forall>i\<in>set os. py_getitem i ''address'' \<noteq> Inr (JStr (instance_ip self))"
  shows "(let new_origin = JObj [(''enabled'', JBool True),
                                 (''name'', JStr (instance_name self)),
                                 (''weight'', JFloat (instance_weight self)),
                                 (''address'', JStr (instance_ip self))];
              put = build_request self
                      (Some (JObj [(''name'', nm), (''origins'', JArr (os @ [new_origin]))]))
          in req_present net self [] =
               ([build_request self None, put],
                case net [build_request self None] put of
                  Inl e \<Rightarrow> Inl (NetError e)
                | Inr response \<Rightarrow> Inr response)
             \<and> get_method put = ''PUT'' \<and> req_url put = url self
             \<and> data put = Some (JObj [(''name'', nm),
                                       (''origins'', JArr (os @ [new_origin]))]))"
proof -
  have s: "sent = [build_request self None]"
    using fetched_sent [OF assms(1)] by simp
  show ?thesis
    using req_present_fetched [OF assms(1) assms(2) assms(3) assms(4)] assms(5)
    by (simp add: s Let_def build_request_fields) (simp add: request_def Let_def)
qed

theorem req_present_appends_witness:
  "req_present
     (example_net [example_pool ''p1'' [example_origin ''s1'' ''10.0.0.1'',
                                        example_origin ''s2'' ''10.0.0.2'']])
     (example_self ''p1'' ''present'' ''10.0.0.3'') [] =
   ([build_request (example_self ''p1'' ''present'' ''10.0.0.3'') None,
     build_request (example_self ''p1'' ''present'' ''10.0.0.3'')
       (Some (JObj [(''name'', JStr ''pool_name''),
                    (''origins'', JArr [example_origin ''s1'' ''10.0.0.1'',
                                        example_origin ''s2'' ''10.0.0.2'',
                                        JObj [(''enabled'', JBool True),
                                              (''name'', JStr ''example_server42''),
                                              (''weight'', JFloat 1.0),
                                              (''address'', JStr ''10.0.0.3'')]])]))],
    Inr (JObj [(''success'', JBool True),
               (''result'', JObj [(''name'', JStr ''pool_name''),
                    (''origins'', JArr [example_origin ''s1'' ''10.0.0.1'',
                                        example_origin ''s2'' ''10.0.0.2'',
                                        JObj [(''enabled'', JBool True),
                                              (''name'', JStr ''example_server42''),
                                              (''weight'', JFloat 1.0),
                                              (''address'', JStr ''10.0.0.3'')]])])]))"
  using req_present_appends
    [where net = "example_net [example_pool ''p1'' [example_origin ''s1'' ''10.0.0.1'',
                                        example_origin ''s2'' ''10.0.0.2'']]"
       and self = "example_self ''p1'' ''present'' ''10.0.0.3''"
       and sent = "[build_request (example_self ''p1'' ''present'' ''10.0.0.3'') None]"
       and pool = "example_pool ''p1'' [example_origin ''s1'' ''10.0.0.1'',
                                        example_origin ''s2'' ''10.0.0.2'']"
       and nm = "JStr ''pool_name''"
       and os = "[example_origin ''s1'' ''10.0.0.1'', example_origin ''s2'' ''10.0.0.2'']"]
  by (simp add: example_defs req_pool_info_def request_def build_request_def Cloudflare_def
        Let_def)

text \<open>
  Claim C5. When at least two origins are left after the filter, \<open>absent\<close> sends, after
  the GET, one PUT whose origin list is the fetched list without the origins whose
  address is \<open>instance_ip\<close>, the others in their order. On three origins, removing the
  second address leaves the first and the third.
\<close>

theorem req_absent_filters:
  assumes "req_pool_info net self [] = (sent, Inr pool)"
    and "py_get pool ''name'' = Inr nm"
    and "py_get pool ''origins'' = Inr (JArr os)"
    and "\<forall>i\<in>set os. \<exists>a. py_getitem i ''address'' = Inr a"
    and "2 \<le> length (filter (\<lambda>i. py_getitem i ''address'' \<noteq> Inr (JStr (instance_ip self))) os)"
  shows "(let kept = filter (\<lambda>i. py_getitem i ''address'' \<noteq> Inr (JStr (instance_ip self))) os;
              put = build_request self
                      (Some (JObj [(''name'', nm), (''origins'', JArr kept)]))
          in req_absent net self [] =
               ([build_request self None, put],
                case net [build_request self None] put of
                  Inl e \<Rightarrow> Inl (NetError e)
                | Inr response \<Rightarrow> Inr response)
             \<and> get_method put = ''PUT'' \<and> req_url put = url self
             \<and> data put = Some (JObj [(''name'', nm), (''origins'', JArr kept)]))"
proof -
  have s: "sent = [build_request self None]"
    using fetched_sent [OF assms(1)] by simp
  show ?thesis
    using req_absent_fetched [OF assms(1) assms(2) assms(3) assms(4)] assms(5)
    by (simp add: s Let_def build_request_fields) (simp add: request_def Let_def)
qed

theorem req_absent_filters_witness:
  "req_absent
     (example_net [example_pool ''p1'' [example_origin ''s1'' ''10.0.0.1'',
                                        example_origin ''s2'' ''10.0.0.2'',
                                        example_origin ''s3'' ''10.0.0.3'']])
     (example_self ''p1'' ''absent'' ''10.0.0.2'') [] =
   ([build_request (example_self ''p1'' ''absent'' ''10.0.0.2'') None,
     build_request (example_self ''p1'' ''absent'' ''10.0.0.2'')
       (Some (JObj [(''name'', JStr ''pool_name''),
                    (''origins'', JArr [example_origin ''s1'' ''10.0.0.1'',
                                        example_origin ''s3'' ''10.0.0.3''])]))],
    Inr (JObj [(''success'', JBool True),
               (''result'', JObj [(''name'', JStr ''pool_name''),
                    (''origins'', JArr [example_origin ''s1'' ''10.0.0.1'',
                                        example_origin ''s3'' ''10.0.0.3''])])]))"
  using req_absent_filters
    [where net = "example_net [example_pool ''p1'' [example_origin ''s1'' ''10.0.0.1'',
                                        example_origin ''s2'' ''10.0.0.2'',
                                        example_origin ''s3'' ''10.0.0.3'']]"
       and self = "example_self ''p1'' ''absent'' ''10.0.0.2''"
       and sent = "[build_request (example_self ''p1'' ''absent'' ''10.0.0.2'') None]"
       and pool = "example_pool ''p1'' [example_origin ''s1'' ''10.0.0.1'',
                                        example_origin ''s2'' ''10.0.0.2'',
                                        example_origin ''s3'' ''10.0.0.3'']"
       and nm = "JStr ''pool_name''"
       and os = "[example_origin ''s1'' ''10.0.0.1'', example_origin ''s2'' ''10.0.0.2'',
                  example_origin ''s3'' ''10.0.0.3'']"]
  by (simp add: example_defs req_pool_info_def request_def build_request_def Cloudflare_def
        Let_def)

section \<open>The pool lister\<close>

text \<open>
  Claim C6. When the service answers the lister's request with a document whose
  \<open>result\<close> is the list of the account's pools, the run consists of one GET of the pools
  collection URL and its output carries, under the key \<open>clbs\<close>, that list as it came:
  every pool, unchanged, none left out.
\<close>

theorem lister_returns_result:
  assumes "self = lb_Cloudflare (lb_p_email m) (lb_p_api_key m) (lb_p_account_id m)"
    and "net [] (lb_build_request self ''GET'') = Inr response"
    and "py_get response ''result'' = Inr (JArr pools)"
  shows "lb_main net m = ([lb_build_request self ''GET''], Exit_json [(''clbs'', JArr pools)])
       \<and> get_method (lb_build_request self ''GET'') = ''GET''
       \<and> data (lb_build_request self ''GET'') = None
       \<and> req_url (lb_build_request self ''GET'') =
           ''https://api.cloudflare.com/client/v4/accounts/'' @ lb_p_account_id m @
           ''/load_balancers/pools''"
  using assms
  by (simp add: lb_main_def cloudflare_account_lb_def rec_info_def lb_request_def Let_def
                lb_build_request_def lb_Cloudflare_def)

theorem lister_returns_result_witness:
  "lb_main (example_net [example_pool ''p1'' [example_origin ''s1'' ''10.0.0.1''],
                         example_pool ''p2'' [],
                         example_pool ''p3'' [example_origin ''s2'' ''10.0.0.2'']])
           example_lb_params =
   ([\<lparr> req_url = ''https://api.cloudflare.com/client/v4/accounts/acc/load_balancers/pools'',
        get_method = ''GET'',
        headers = [(''Content-Type'', ''application/json''),
                   (''X-Auth-Email'', ''joe@example.com''),
                   (''X-Auth-Key'', ''77a54a4c'')],
        data = None \<rparr>],
    Exit_json [(''clbs'', JArr [example_pool ''p1'' [example_origin ''s1'' ''10.0.0.1''],
                                example_pool ''p2'' [],
                                example_pool ''p3'' [example_origin ''s2'' ''10.0.0.2'']])])"
  using lister_returns_result
    [where m = example_lb_params
       and self = "lb_Cloudflare ''joe@example.com'' ''77a54a4c'' ''acc''"
       and net = "example_net [example_pool ''p1'' [example_origin ''s1'' ''10.0.0.1''],
                         example_pool ''p2'' [],
                         example_pool ''p3'' [example_origin ''s2'' ''10.0.0.2'']]"
       and response = "JObj [(''success'', JBool True),
                     (''result'', JArr [example_pool ''p1'' [example_origin ''s1'' ''10.0.0.1''],
                         example_pool ''p2'' [],
                         example_pool ''p3'' [example_origin ''s2'' ''10.0.0.2'']])]"
       and pools = "[example_pool ''p1'' [example_origin ''s1'' ''10.0.0.1''],
                         example_pool ''p2'' [],
                         example_pool ''p3'' [example_origin ''s2'' ''10.0.0.2'']]"]
  by (simp add: example_lb_params_def example_net_def lb_build_request_def lb_Cloudflare_def)

section \<open>The registrar's result\<close>

text \<open>
  Claim C7. Every registrar run that ends successfully reports \<open>changed\<close> as true: the
  output is always \<open>changed = true\<close> together with the service's response, whatever
  the pool looked like before and after.
\<close>

theorem changed_true_on_success:
  assumes "snd (main net m) = Exit_json kw"
  shows "\<exists>resp. kw = [(''changed'', JBool True), (''response'', resp)]"
  using assms
  by (auto simp: main_def cloudflare_account_instance_def Let_def
           split: prod.splits sum.splits if_splits)

theorem changed_true_on_success_witness:
  "\<exists>resp. [(''changed'', JBool True),
            (''response'', JObj [(''success'', JBool True),
               (''result'', JObj [(''name'', JStr ''pool_name''),
                    (''origins'', JArr [example_origin ''s1'' ''10.0.0.1'',
                                        JObj [(''enabled'', JBool True),
                                              (''name'', JStr ''example_server42''),
                                              (''weight'', JFloat 1.0),
                                              (''address'', JStr ''10.0.0.7'')]])])])]
         = [(''changed'', JBool True), (''response'', resp)]
         \<and> snd (main (example_net [example_pool ''p1'' [example_origin ''s1'' ''10.0.0.1'']])
                      (example_params ''p1'' ''present'' ''10.0.0.7''))
             = Exit_json [(''changed'', JBool True), (''response'', resp)]"
  using changed_true_on_success
    [where net = "example_net [example_pool ''p1'' [example_origin ''s1'' ''10.0.0.1'']]"
       and m = "example_params ''p1'' ''present'' ''10.0.0.7''"
       and kw = "[(''changed'', JBool True),
            (''response'', JObj [(''success'', JBool True),
               (''result'', JObj [(''name'', JStr ''pool_name''),
                    (''origins'', JArr [example_origin ''s1'' ''10.0.0.1'',
                                        JObj [(''enabled'', JBool True),
                                              (''name'', JStr ''example_server42''),
                                              (''weight'', JFloat 1.0),
                                              (''address'', JStr ''10.0.0.7'')]])])])]"]
  by (simp add: run_defs example_defs)

text \<open>The field \<open>wait\<close> of the object is read by none of its methods.\<close>

lemma build_request_wait: "build_request (self\<lparr>wait := w\<rparr>) c = build_request self c"
  by (simp add: build_request_def Let_def split: option.splits)

lemma request_wait: "request net (self\<lparr>wait := w\<rparr>) c sent = request net self c sent"
  by (simp add: request_def build_request_wait)

lemma req_pool_info_wait:
  "req_pool_info net (self\<lparr>wait := w\<rparr>) sent = req_pool_info net self sent"
  by (simp add: req_pool_info_def request_wait split: prod.splits sum.splits)

lemma req_present_wait: "req_present net (self\<lparr>wait := w\<rparr>) sent = req_present net self sent"
  by (simp add: req_present_def req_pool_info_wait request_wait get_origin_by_ip_def Let_def
           split: prod.splits sum.splits)

lemma req_absent_wait: "req_absent net (self\<lparr>wait := w\<rparr>) sent = req_absent net self sent"
  by (simp add: req_absent_def req_pool_info_wait request_wait Let_def
           split: prod.splits sum.splits)

lemma Cloudflare_wait:
  "Cloudflare e k a p s ip n wt w = (Cloudflare e k a p s ip n wt w')\<lparr>wait := w\<rparr>"
  by (simp add: Cloudflare_def Let_def)

lemma req_present_any_wait:
  "req_present net (Cloudflare e k a p s ip n wt w) sent =
   req_present net (Cloudflare e k a p s ip n wt w') sent"
  by (subst Cloudflare_wait [where w' = w']) (rule req_present_wait)

lemma req_absent_any_wait:
  "req_absent net (Cloudflare e k a p s ip n wt w) sent =
   req_absent net (Cloudflare e k a p s ip n wt w') sent"
  by (subst Cloudflare_wait [where w' = w']) (rule req_absent_wait)

text \<open>
  Claim C8. Two registrar runs whose parameters differ only in \<open>wait\<close> send the same
  requests and end with the same result; the value is stored in the object and used
  nowhere.
\<close>

theorem wait_is_a_no_op:
  "main net (m\<lparr>p_wait := w\<rparr>) = main net m
   \<and> wait (Cloudflare e k a p s ip n wt w) = w"
proof -
  have "cloudflare_account_instance net (m\<lparr>p_wait := w\<rparr>) sent =
        cloudflare_account_instance net m sent" for sent
    by (simp add: cloudflare_account_instance_def Let_def
          req_present_any_wait [where w = w and w' = "p_wait m"]
          req_absent_any_wait [where w = w and w' = "p_wait m"] cong: if_cong)
  then show ?thesis
    by (simp add: main_def Cloudflare_def Let_def)
qed

theorem wait_is_a_no_op_witness:
  "main (example_net [example_pool ''p1'' [example_origin ''s1'' ''10.0.0.1'',
                                           example_origin ''s2'' ''10.0.0.2'',
                                           example_origin ''s3'' ''10.0.0.3'']])
        ((example_params ''p1'' ''absent'' ''10.0.0.3'')\<lparr>p_wait := True\<rparr>)
   = main (example_net [example_pool ''p1'' [example_origin ''s1'' ''10.0.0.1'',
                                           example_origin ''s2'' ''10.0.0.2'',
                                           example_origin ''s3'' ''10.0.0.3'']])
        (example_params ''p1'' ''absent'' ''10.0.0.3'')
   \<and> p_wait ((example_params ''p1'' ''absent'' ''10.0.0.3'')\<lparr>p_wait := True\<rparr>)
       \<noteq> p_wait (example_params ''p1'' ''absent'' ''10.0.0.3'')"
  using wait_is_a_no_op
    [where net = "example_net [example_pool ''p1'' [example_origin ''s1'' ''10.0.0.1'',
                                           example_origin ''s2'' ''10.0.0.2'',
                                           example_origin ''s3'' ''10.0.0.3'']]"
       and m = "example_params ''p1'' ''absent'' ''10.0.0.3''" and w = True]
  by (simp add: example_params_def)

section \<open>What a PUT of the registrar carries\<close>

text \<open>A PUT is only ever sent once a pool has been fetched whose origins are a list; its
  document is built from that pool's name and the new origin list.\<close>

lemma py_append_Inr: "py_append origins x = Inr origins' \<Longrightarrow>
  \<exists>os. origins = JArr os \<and> origins' = JArr (os @ [x])"
  by (cases origins) simp_all

lemma py_iter_dicts:
  "py_iter origins = Inr items \<Longrightarrow> items \<noteq> [] \<Longrightarrow> \<forall>i\<in>set items. \<exists>kv. i = JObj kv \<Longrightarrow>
   origins = JArr items"
  by (cases origins; cases items) auto

lemma req_present_put:
  assumes "r \<in> set (fst (req_present net self []))" and "get_method r = ''PUT''"
  shows "\<exists>pool nm os. snd (req_pool_info net self []) = Inr pool
           \<and> py_get pool ''name'' = Inr nm
           \<and> py_get pool ''origins'' = Inr (JArr os)
           \<and> data r = Some (JObj [(''name'', nm),
                                   (''origins'', JArr (os @ [JObj
                                       [(''enabled'', JBool True),
                                        (''name'', JStr (instance_name self)),
                                        (''weight'', JFloat (instance_weight self)),
                                        (''address'', JStr (instance_ip self))]]))])"
proof -
  obtain sent res where f: "req_pool_info net self [] = (sent, res)"
    by (cases "req_pool_info net self []") auto
  have s: "sent = [build_request self None]"
    using fetched_sent [OF f] by simp
  show ?thesis
    using assms
    by (auto simp: req_present_def f s Let_def request_fst build_request_fields
             split: sum.splits if_splits dest!: py_append_Inr)
qed

lemma req_absent_put:
  assumes "r \<in> set (fst (req_absent net self []))" and "get_method r = ''PUT''"
  shows "\<exists>pool nm os. snd (req_pool_info net self []) = Inr pool
           \<and> py_get pool ''name'' = Inr nm
           \<and> py_get pool ''origins'' = Inr (JArr os)
           \<and> data r = Some (JObj [(''name'', nm),
                                   (''origins'', JArr (filter (\<lambda>i. py_getitem i ''address'' \<noteq>
                                       Inr (JStr (instance_ip self))) os))])"
proof -
  obtain sent res where f: "req_pool_info net self [] = (sent, res)"
    by (cases "req_pool_info net self []") auto
  have s: "sent = [build_request self None]"
    using fetched_sent [OF f] by simp
  have k: "origins = JArr items \<and>
           kept = filter (\<lambda>i. py_getitem i ''address'' \<noteq> Inr (JStr (instance_ip self))) items"
    if "py_iter origins = Inr items"
      and "filter_items ''address'' (instance_ip self) items = Inr kept"
      and "\<not> length kept \<le> 1"
    for origins items kept
  proof -
    have e: "kept = filter (\<lambda>i. py_getitem i ''address'' \<noteq> Inr (JStr (instance_ip self))) items"
      using filter_items_Inr [OF that(2)] .
    have "items \<noteq> []" using e that(3) by auto
    moreover have "\<forall>i\<in>set items. \<exists>kv. i = JObj kv"
      using filter_items_Inr_dicts [OF that(2)] by blast
    ultimately have "origins = JArr items"
      using py_iter_dicts [OF that(1)] by blast
    with e show ?thesis by simp
  qed
  show ?thesis
    using assms
    by (auto simp: req_absent_def f s Let_def request_fst build_request_fields
             split: sum.splits if_splits dest!: k)
qed

text \<open>
  Claim C9. Every PUT the registrar sends, in \<open>present\<close> as in \<open>absent\<close>, has a body with
  exactly the two keys \<open>name\<close> and \<open>origins\<close>: the name is the fetched pool's name as it
  came, the origins are the fetched list with the new origin appended (\<open>present\<close>) or
  with the origins of address \<open>instance_ip\<close> removed (\<open>absent\<close>). No other field of the
  pool is written.
\<close>

theorem put_body_is_name_and_origins:
  "(r \<in> set (fst (req_present net self [])) \<and> get_method r = ''PUT'' \<longrightarrow>
      (\<exists>pool nm os. snd (req_pool_info net self []) = Inr pool
           \<and> py_get pool ''name'' = Inr nm
           \<and> py_get pool ''origins'' = Inr (JArr os)
           \<and> data r = Some (JObj [(''name'', nm),
                                   (''origins'', JArr (os @ [JObj
                                       [(''enabled'', JBool True),
                                        (''name'', JStr (instance_name self)),
                                        (''weight'', JFloat (instance_weight self)),
                                        (''address'', JStr (instance_ip self))]]))])))
   \<and> (r \<in> set (fst (req_absent net self [])) \<and> get_method r = ''PUT'' \<longrightarrow>
      (\<exists>pool nm os. snd (req_pool_info net self []) = Inr pool
           \<and> py_get pool ''name'' = Inr nm
           \<and> py_get pool ''origins'' = Inr (JArr os)
           \<and> data r = Some (JObj [(''name'', nm),
                                   (''origins'', JArr (filter (\<lambda>i. py_getitem i ''address'' \<noteq>
                                       Inr (JStr (instance_ip self))) os))])))"
  using req_present_put [of r net self] req_absent_put [of r net self] by blast

theorem put_body_is_name_and_origins_witness:
  "build_request (example_self ''p1'' ''absent'' ''10.0.0.1'')
     (Some (JObj [(''name'', JStr ''pool_name''),
                  (''origins'', JArr [example_origin ''s2'' ''10.0.0.2'',
                                      example_origin ''s3'' ''10.0.0.3''])]))
     \<in> set (fst (req_absent
          (example_net [example_pool ''p1'' [example_origin ''s1'' ''10.0.0.1'',
                                             example_origin ''s2'' ''10.0.0.2'',
                                             example_origin ''s3'' ''10.0.0.3'']])
          (example_self ''p1'' ''absent'' ''10.0.0.1'') []))
   \<and> get_method (build_request (example_self ''p1'' ''absent'' ''10.0.0.1'')
     (Some (JObj [(''name'', JStr ''pool_name''),
                  (''origins'', JArr [example_origin ''s2'' ''10.0.0.2'',
                                      example_origin ''s3'' ''10.0.0.3''])]))) = ''PUT''
   \<and> (\<exists>pool nm os.
         snd (req_pool_info
               (example_net [example_pool ''p1'' [example_origin ''s1'' ''10.0.0.1'',
                                             example_origin ''s2'' ''10.0.0.2'',
                                             example_origin ''s3'' ''10.0.0.3'']])
               (example_self ''p1'' ''absent'' ''10.0.0.1'') []) = Inr pool
         \<and> py_get pool ''name'' = Inr nm
         \<and> py_get pool ''origins'' = Inr (JArr os)
         \<and> Some (JObj [(''name'', JStr ''pool_name''),
                  (''origins'', JArr [example_origin ''s2'' ''10.0.0.2'',
                                      example_origin ''s3'' ''10.0.0.3''])])
           = Some (JObj [(''name'', nm),
                         (''origins'', JArr (filter (\<lambda>i. py_getitem i ''address'' \<noteq>
                                       Inr (JStr ''10.0.0.1'')) os))]))
   \<and> build_request (example_self ''p1'' ''present'' ''10.0.0.4'')
     (Some (JObj [(''name'', JStr ''pool_name''),
                  (''origins'', JArr [example_origin ''s1'' ''10.0.0.1'',
                                      JObj [(''enabled'', JBool True),
                                            (''name'', JStr ''example_server42''),
                                            (''weight'', JFloat 1.0),
                                            (''address'', JStr ''10.0.0.4'')]])]))
     \<in> set (fst (req_present
          (example_net [example_pool ''p1'' [example_origin ''s1'' ''10.0.0.1'']])
          (example_self ''p1'' ''present'' ''10.0.0.4'') []))
   \<and> (\<exists>pool nm os.
         snd (req_pool_info
               (example_net [example_pool ''p1'' [example_origin ''s1'' ''10.0.0.1'']])
               (example_self ''p1'' ''present'' ''10.0.0.4'') []) = Inr pool
         \<and> py_get pool ''name'' = Inr nm
         \<and> py_get pool ''origins'' = Inr (JArr os)
         \<and> Some (JObj [(''name'', JStr ''pool_name''),
                  (''origins'', JArr [example_origin ''s1'' ''10.0.0.1'',
                                      JObj [(''enabled'', JBool True),
                                            (''name'', JStr ''example_server42''),
                                            (''weight'', JFloat 1.0),
                                            (''address'', JStr ''10.0.0.4'')]])])
           = Some (JObj [(''name'', nm),
                         (''origins'', JArr (os @ [JObj
                                       [(''enabled'', JBool True),
                                        (''name'', JStr ''example_server42''),
                                        (''weight'', JFloat 1.0),
                                        (''address'', JStr ''10.0.0.4'')]]))]))"
  using put_body_is_name_and_origins
    [where r = "build_request (example_self ''p1'' ''absent'' ''10.0.0.1'')
                  (Some (JObj [(''name'', JStr ''pool_name''),
                               (''origins'', JArr [example_origin ''s2'' ''10.0.0.2'',
                                                   example_origin ''s3'' ''10.0.0.3''])]))"
       and net = "example_net [example_pool ''p1'' [example_origin ''s1'' ''10.0.0.1'',
                                             example_origin ''s2'' ''10.0.0.2'',
                                             example_origin ''s3'' ''10.0.0.3'']]"
       and self = "example_self ''p1'' ''absent'' ''10.0.0.1''"]
    put_body_is_name_and_origins
    [where r = "build_request (example_self ''p1'' ''present'' ''10.0.0.4'')
                  (Some (JObj [(''name'', JStr ''pool_name''),
                               (''origins'', JArr [example_origin ''s1'' ''10.0.0.1'',
                                      JObj [(''enabled'', JBool True),
                                            (''name'', JStr ''example_server42''),
                                            (''weight'', JFloat 1.0),
                                            (''address'', JStr ''10.0.0.4'')]])]))"
       and net = "example_net [example_pool ''p1'' [example_origin ''s1'' ''10.0.0.1'']]"
       and self = "example_self ''p1'' ''present'' ''10.0.0.4''"]
  by (simp add: example_defs req_absent_def req_present_def get_origin_by_ip_def
        req_pool_info_def request_def build_request_def Cloudflare_def Let_def)

text \<open>
  Claim C10. On a pool of at least two origins none of which has the address
  \<open>instance_ip\<close>, \<open>absent\<close> is claimed not to fail and to report \<open>changed = true\<close>. As
  stated this does not hold: the PUT is a round trip of its own, and when the service
  turns it down the run fails, as every transport error does in this program. What
  holds is this. \<open>absent\<close> raises no error of its own; the run sends the GET and then a
  PUT whose origin list is the fetched list unchanged; when the service answers the
  PUT, the run reports \<open>changed = true\<close> with that answer, and when the PUT's round trip
  fails, the run fails with that transport error.
\<close>

theorem absent_without_match_reports_changed:
  assumes "p_state m = ''absent''"
    and "self = Cloudflare (p_email m) (p_api_key m) (p_account_id m) (p_pool_id m)
                  (p_state m) (p_instance_ip m) (p_instance_name m) (p_instance_weight m)
                  (p_wait m)"
    and "req_pool_info net self [] = (sent, Inr pool)"
    and "py_get pool ''name'' = Inr nm"
    and "py_get pool ''origins'' = Inr (JArr os)"
    and "2 \<le> length os"
    and "\<forall>i\<in>set os. \<exists>a. py_getitem i ''address'' = Inr a \<and> a \<noteq> JStr (p_instance_ip m)"
  shows "(let put = build_request self (Some (JObj [(''name'', nm), (''origins'', JArr os)]))
          in main net m =
               ([build_request self None, put],
                case net [build_request self None] put of
                  Inl e \<Rightarrow> Fail_json (Str (NetError e))
                | Inr response \<Rightarrow>
                    Exit_json [(''changed'', JBool True), (''response'', response)])
             \<and> get_method put = ''PUT''
             \<and> data put = Some (JObj [(''name'', nm), (''origins'', JArr os)]))"
proof -
  have ip: "instance_ip self = p_instance_ip m"
    by (simp add: assms(2) Cloudflare_def Let_def)
  have wf: "\<forall>i\<in>set os. \<exists>a. py_getitem i ''address'' = Inr a"
    using assms(7) by blast
  have keep: "filter (\<lambda>i. py_getitem i ''address'' \<noteq> Inr (JStr (instance_ip self))) os = os"
    using assms(7) by (auto simp: ip filter_id_conv)
  have s: "sent = [build_request self None]"
    using fetched_sent [OF assms(3)] by simp
  have r: "req_absent net self [] =
           request net self (Some (JObj [(''name'', nm), (''origins'', JArr os)]))
             [build_request self None]"
    using req_absent_fetched [OF assms(3) assms(4) assms(5) wf] assms(6)
    by (simp add: keep s)
  have c: "cloudflare_account_instance net m [] =
           (case req_absent net self [] of
              (sent', Inl e) \<Rightarrow> (sent', Inl e)
            | (sent', Inr resp) \<Rightarrow>
                (sent', Inr (Exit_json [(''changed'', JBool True), (''response'', resp)])))"
    using assms(1) by (simp add: cloudflare_account_instance_def Let_def assms(2))
  show ?thesis
    by (simp add: main_def c r request_def Let_def build_request_fields split: sum.splits)
qed

theorem absent_without_match_reports_changed_witness:
  "main (example_net [example_pool ''p1'' [example_origin ''s1'' ''10.0.0.1'',
                                           example_origin ''s2'' ''10.0.0.2'']])
        (example_params ''p1'' ''absent'' ''10.0.0.9'')
   = ([build_request (example_self ''p1'' ''absent'' ''10.0.0.9'') None,
       build_request (example_self ''p1'' ''absent'' ''10.0.0.9'')
         (Some (JObj [(''name'', JStr ''pool_name''),
                      (''origins'', JArr [example_origin ''s1'' ''10.0.0.1'',
                                          example_origin ''s2'' ''10.0.0.2''])]))],
      Exit_json [(''changed'', JBool True),
                 (''response'', JObj [(''success'', JBool True),
                    (''result'', JObj [(''name'', JStr ''pool_name''),
                      (''origins'', JArr [example_origin ''s1'' ''10.0.0.1'',
                                          example_origin ''s2'' ''10.0.0.2''])])])])"
  using absent_without_match_reports_changed
    [where net = "example_net [example_pool ''p1'' [example_origin ''s1'' ''10.0.0.1'',
                                           example_origin ''s2'' ''10.0.0.2'']]"
       and m = "example_params ''p1'' ''absent'' ''10.0.0.9''"
       and self = "example_self ''p1'' ''absent'' ''10.0.0.9''"
       and sent = "[build_request (example_self ''p1'' ''absent'' ''10.0.0.9'') None]"
       and pool = "example_pool ''p1'' [example_origin ''s1'' ''10.0.0.1'',
                                        example_origin ''s2'' ''10.0.0.2'']"
       and nm = "JStr ''pool_name''"
       and os = "[example_origin ''s1'' ''10.0.0.1'', example_origin ''s2'' ''10.0.0.2'']"]
  by (simp add: example_defs req_pool_info_def request_def build_request_def Cloudflare_def
        Let_def)

text \<open>
  The claim as first stated fails on the two-origin pool of the docstring when no origin
  has the address \<open>10.0.0.9\<close> and the service answers the PUT with status 400: the pool
  is fetched, both origins carry another address, the PUT goes out with the list
  unchanged, and the run ends in a failure that carries the HTTP error, not in
  \<open>changed = true\<close>.
\<close>

theorem absent_without_match_put_rejected:
  "req_pool_info
     (example_net_put_rejected [example_pool ''p1'' [example_origin ''s1'' ''10.0.0.1'',
                                                     example_origin ''s2'' ''10.0.0.2'']])
     (example_self ''p1'' ''absent'' ''10.0.0.9'') []
   = ([build_request (example_self ''p1'' ''absent'' ''10.0.0.9'') None],
      Inr (example_pool ''p1'' [example_origin ''s1'' ''10.0.0.1'',
                                example_origin ''s2'' ''10.0.0.2'']))
   \<and> py_get (example_pool ''p1'' [example_origin ''s1'' ''10.0.0.1'',
                                   example_origin ''s2'' ''10.0.0.2'']) ''origins''
       = Inr (JArr [example_origin ''s1'' ''10.0.0.1'', example_origin ''s2'' ''10.0.0.2''])
   \<and> 2 \<le> length [example_origin ''s1'' ''10.0.0.1'', example_origin ''s2'' ''10.0.0.2'']
   \<and> py_getitem (example_origin ''s1'' ''10.0.0.1'') ''address'' = Inr (JStr ''10.0.0.1'')
   \<and> py_getitem (example_origin ''s2'' ''10.0.0.2'') ''address'' = Inr (JStr ''10.0.0.2'')
   \<and> JStr ''10.0.0.1'' \<noteq> JStr ''10.0.0.9'' \<and> JStr ''10.0.0.2'' \<noteq> JStr ''10.0.0.9''
   \<and> main (example_net_put_rejected [example_pool ''p1'' [example_origin ''s1'' ''10.0.0.1'',
                                                          example_origin ''s2'' ''10.0.0.2'']])
          (example_params ''p1'' ''absent'' ''10.0.0.9'')
       = ([build_request (example_self ''p1'' ''absent'' ''10.0.0.9'') None,
           build_request (example_self ''p1'' ''absent'' ''10.0.0.9'')
             (Some (JObj [(''name'', JStr ''pool_name''),
                          (''origins'', JArr [example_origin ''s1'' ''10.0.0.1'',
                                              example_origin ''s2'' ''10.0.0.2''])]))],
          Fail_json (Str (NetError (HTTPError 400))))"
  by (simp add: run_defs example_defs example_net_put_rejected_def)

end
